theory Spec2Isabelle
  imports Complex_Main
begin

section \<open>Errors\<close>

text \<open>
  The Python exceptions the two programs can raise by themselves. \<open>KeyError\<close> carries the
  missing key (a tuple key of a column index is the list of its components); the others
  carry their message.
\<close>

datatype error =
    KeyError "string list"
  | ValueError string
  | NotImplementedError string
  | TypeError string
  | IndexError string

section \<open>interference\_summary.py: the loss report\<close>

text \<open>
  A float of the pivot is \<open>Some x\<close> when it is a finite number (arithmetic on finite
  numbers is exact here: the rounding of binary64 is not modelled) and \<open>None\<close> when it is
  not a finite number (NaN, the value pandas puts in a cell of the pivot that has no
  measurement, or an infinity produced by a division by zero).
\<close>

type_synonym cell = "rat option"

type_synonym column = "string \<times> string"

text \<open>
  The performance pivot: its columns (contention, workload id), and its rows in index
  order, each row keyed by (primary nodes, secondary nodes) and holding the measured means.
  A column of the frame that has no measurement in a row reads NaN in that row.
\<close>

record perf_frame =
  columns :: "column list"
  rows :: "((nat \<times> nat) \<times> (column \<rightharpoonup> rat)) list"

text \<open>\<open>row.loc[(contention, workload_id)]\<close>: KeyError when the frame has no such column.\<close>

definition row_loc :: "column list \<Rightarrow> (column \<rightharpoonup> rat) \<Rightarrow> column \<Rightarrow> error + cell" where
  "row_loc cols vals c =
     (if c \<in> set cols then Inr (vals c) else Inl (KeyError [fst c, snd c]))"

definition fsub :: "cell \<Rightarrow> cell \<Rightarrow> cell" where
  "fsub a b = (case a of None \<Rightarrow> None
               | Some x \<Rightarrow> (case b of None \<Rightarrow> None | Some y \<Rightarrow> Some (x - y)))"

text \<open>\<open>d * (100.0 / q)\<close>, the in-place scaling of the second statement.\<close>

definition fscale :: "cell \<Rightarrow> cell \<Rightarrow> cell" where
  "fscale d q = (case d of None \<Rightarrow> None
                 | Some x \<Rightarrow> (case q of None \<Rightarrow> None
                     | Some y \<Rightarrow> if y = 0 then None else Some (x * (100 / y))))"

text \<open>
  The body of the \<open>try\<close> for one workload id: the result is the entry of the \<open>loss\<close>
  dictionary for that id, \<open>None\<close> when the KeyError left the dictionary without it.
\<close>

definition loss_entry :: "column list \<Rightarrow> (column \<rightharpoonup> rat) \<Rightarrow> string \<Rightarrow> cell option" where
  "loss_entry cols vals w =
     (case row_loc cols vals (''quiet'', w) of
        Inl e \<Rightarrow> None
      | Inr q \<Rightarrow>
         (case row_loc cols vals (''noisy'', w) of
            Inl e \<Rightarrow> None
          | Inr n \<Rightarrow>
             (case row_loc cols vals (''quiet'', w) of
                Inl e \<Rightarrow> Some (fsub q n)
              | Inr q' \<Rightarrow> Some (fscale (fsub q n) q'))))"

text \<open>The \<open>loss\<close> dictionary of one row, its keys in insertion order.\<close>

definition loss_row :: "column list \<Rightarrow> (column \<rightharpoonup> rat) \<Rightarrow> (string \<times> cell) list" where
  "loss_row cols vals =
     concat (map (\<lambda>w. case loss_entry cols vals w of None \<Rightarrow> [] | Some v \<Rightarrow> [(w, v)])
                 [''primary'', ''secondary''])"

text \<open>
  \<open>pandas.DataFrame.from_records(losses, index=index)\<close> on a list of dictionaries: one row
  per dictionary, labelled by the index in order. Without any record the frame has the
  index and no column; a list whose length differs from the index's is refused.
\<close>

definition from_records ::
  "(string \<times> cell) list list \<Rightarrow> (nat \<times> nat) list \<Rightarrow> error + ((nat \<times> nat) \<times> (string \<times> cell) list) list"
where
  "from_records losses idx =
     (if losses = [] then Inr (map (\<lambda>i. (i, [])) idx)
      else if length losses = length idx then Inr (zip idx losses)
      else Inl (ValueError ''Length of values does not match length of index''))"

definition loss_frame :: "perf_frame \<Rightarrow> error + ((nat \<times> nat) \<times> (string \<times> cell) list) list" where
  "loss_frame performance =
     (let losses = filter (\<lambda>loss. loss \<noteq> [])
                     (map (\<lambda>(k, vals). loss_row (columns performance) vals) (rows performance))
      in from_records losses (map fst (rows performance)))"

text \<open>The entry of the loss frame for a node-count pair and a workload id, when there is one.\<close>

definition loss_at ::
  "error + ((nat \<times> nat) \<times> (string \<times> cell) list) list \<Rightarrow> nat \<times> nat \<Rightarrow> string \<Rightarrow> cell option"
where
  "loss_at fr k w =
     (case fr of Inl e \<Rightarrow> None
      | Inr rs \<Rightarrow> (case map_of rs k of None \<Rightarrow> None | Some d \<Rightarrow> map_of d w))"

text \<open>A pivot with one node-count pair, quiet and noisy means of the primary workload.\<close>

definition pivot1 :: "nat \<times> nat \<Rightarrow> rat \<Rightarrow> rat \<Rightarrow> perf_frame" where
  "pivot1 k q n =
     \<lparr> columns = [(''noisy'', ''primary''), (''quiet'', ''primary'')],
       rows = [(k, [(''quiet'', ''primary'') \<mapsto> q, (''noisy'', ''primary'') \<mapsto> n])] \<rparr>"


section \<open>iopup.py: strings\<close>

definition digit_char :: "nat \<Rightarrow> char" where
  "digit_char d = char_of (48 + d)"

text \<open>\<open>str(n)\<close> for an integer: decimal digits, a minus sign in front of a negative one.\<close>

function str_nat :: "nat \<Rightarrow> string" where
  "str_nat n = (if n < 10 then [digit_char n] else str_nat (n div 10) @ [digit_char (n mod 10)])"
  by pat_completeness auto
termination
  by (relation "measure id") auto

declare str_nat.simps [simp del]

definition str_int :: "int \<Rightarrow> string" where
  "str_int i = (if i < 0 then CHR ''-'' # str_nat (nat (- i)) else str_nat (nat i))"

text \<open>\<open>sep.join(xs)\<close>\<close>

fun join :: "string \<Rightarrow> string list \<Rightarrow> string" where
  "join sep [] = []"
| "join sep [x] = x"
| "join sep (x # y # ys) = x @ sep @ join sep (y # ys)"

section \<open>iopup.py: launchers\<close>

text \<open>
  The three launcher classes. The methods of \<open>BenchmarkLauncher\<close> that a class does not
  override are modelled as the behaviour of that class.
\<close>

datatype tool = Elbencho | Ior | Mdworkbench

text \<open>
  A destination for a subprocess's output: an open file object (with its name) or
  \<open>subprocess.PIPE\<close>. No destination is \<open>None\<close>.
\<close>

datatype stream = FileObj string | PIPE

text \<open>A value of an extra keyword argument.\<close>

datatype pyval = PyBool bool | PyInt int | PyStr string

fun py_str :: "pyval \<Rightarrow> string" where
  "py_str (PyBool b) = (if b then ''True'' else ''False'')"
| "py_str (PyInt i) = str_int i"
| "py_str (PyStr s) = s"

text \<open>The fields of a launcher object after its constructor has run.\<close>

record launcher =
  tool :: tool
  binary :: string
  hosts :: "string list option"
  ppn :: int
  output_dir :: "string list"
  timelimit :: int
  timelimit_args :: "string list"
  random_data :: bool
  random_data_args :: "string list"
  test :: bool
  kwargs :: "(string \<times> pyval) list"
  cmdline :: "string list"
  common_args :: "string list"
  access_args :: "string \<rightharpoonup> string list"
  pattern_args :: "string \<rightharpoonup> string list"
  access_pattern_args :: "string \<rightharpoonup> (string \<rightharpoonup> string list)"
  prepend_cmdline :: "string list"
  stdout :: "stream option"
  stderr :: "stream option"
  livecsv :: bool

section \<open>iopup.py: the world outside\<close>

datatype level = INFO | DEBUG

datatype phase = Preflight | Run | Teardown

text \<open>
  What an execution does to the outside, in order: log records, subprocesses created
  (command line, stdout, stderr, and the handle of the new process), sleeps, waits on a
  process handle, files opened for appending. \<open>Call\<close>, \<open>Ret\<close> and \<open>Stamp\<close> are marks
  the scheduler leaves when it calls a method of the launcher of its i-th workload, when
  that call returns (with the handle returned, if any) and when the i-th worker returns
  its pair of timestamps. \<open>Finished\<close> is the log record of a measured duration.
\<close>

datatype event =
    Log level string
  | Popen "string list" "stream option" "stream option" nat
  | Sleep nat
  | Wait nat
  | Open string
  | Call phase nat
  | Ret phase nat "nat option"
  | Stamp nat nat nat
  | Finished string "nat option" nat nat

text \<open>
  The state of the outside: the events so far, the handle the next subprocess gets, the
  number of readings of the wall clock taken and of worker pools created so far, and the
  regular files that exist.
\<close>

record world =
  trace :: "event list"
  next_pid :: nat
  clock_reads :: nat
  pools :: nat
  files :: "string list"

text \<open>
  What the program reads from its environment: the module variable \<open>MPIRUN_BIN\<close>, the
  environment variable \<open>SLURM_JOBID\<close>, the reading of the wall clock at each of its
  readings (in seconds), and the order in which the threads of each worker pool take
  their steps.
\<close>

record env =
  mpirun_bin :: string
  slurm_jobid :: "string option"
  wallclock :: "nat \<Rightarrow> nat"
  schedule :: "nat \<Rightarrow> nat list"

definition emit :: "event \<Rightarrow> world \<Rightarrow> world" where
  "emit e w = w\<lparr>trace := trace w @ [e]\<rparr>"

definition popen :: "string list \<Rightarrow> stream option \<Rightarrow> stream option \<Rightarrow> world \<Rightarrow> nat \<times> world" where
  "popen cmd out err w =
     (next_pid w, w\<lparr>trace := trace w @ [Popen cmd out err (next_pid w)], next_pid := Suc (next_pid w)\<rparr>)"

definition time_time :: "env \<Rightarrow> world \<Rightarrow> nat \<times> world" where
  "time_time en w = (wallclock en (clock_reads w), w\<lparr>clock_reads := Suc (clock_reads w)\<rparr>)"

definition isfile :: "world \<Rightarrow> string \<Rightarrow> bool" where
  "isfile w name = (name \<in> set (files w))"

text \<open>\<open>open(name, "a")\<close>: the file exists afterwards.\<close>

definition open_append :: "string \<Rightarrow> world \<Rightarrow> stream \<times> world" where
  "open_append name w =
     (FileObj name, w\<lparr>trace := trace w @ [Open name],
                      files := (if name \<in> set (files w) then files w else files w @ [name])\<rparr>)"

subsection \<open>Command-line assembly\<close>

text \<open>\<open>d.update(kw)\<close> on a dictionary kept in insertion order.\<close>

fun dict_set :: "(string \<times> pyval) list \<Rightarrow> string \<Rightarrow> pyval \<Rightarrow> (string \<times> pyval) list" where
  "dict_set [] k v = [(k, v)]"
| "dict_set ((k', v') # d) k v = (if k' = k then (k, v) # d else (k', v') # dict_set d k v)"

fun dict_update :: "(string \<times> pyval) list \<Rightarrow> (string \<times> pyval) list \<Rightarrow> (string \<times> pyval) list" where
  "dict_update d [] = d"
| "dict_update d ((k, v) # kw) = dict_update (dict_set d k v) kw"

definition append_args :: "string list \<Rightarrow> launcher \<Rightarrow> launcher" where
  "append_args xs l = l\<lparr>cmdline := cmdline l @ xs\<rparr>"

text \<open>
  \<open>_add_hosts\<close>: inline for elbencho; for ior and md-workbench inserted after the
  launcher binary that must head the command line.
\<close>

definition add_hosts :: "string \<Rightarrow> launcher \<Rightarrow> error + launcher" where
  "add_hosts mpirun l =
     (case hosts l of
        None \<Rightarrow> Inr l
      | Some hs \<Rightarrow>
         (case tool l of
            Elbencho \<Rightarrow> Inr (append_args [''--hosts'', join '','' hs] l)
          | _ \<Rightarrow>
             (case cmdline l of
                [] \<Rightarrow> Inl (IndexError ''list index out of range'')
              | c # cs \<Rightarrow>
                 if c = mpirun
                 then Inr (l\<lparr>cmdline := c # ''--nodelist'' # join '','' hs # cs\<rparr>)
                 else Inl (ValueError (''Can't find '' @ mpirun @ '' to insert nodelist'')))))"

definition add_timelimit :: "launcher \<Rightarrow> launcher" where
  "add_timelimit l =
     (if timelimit l \<noteq> 0 then append_args [str_int (timelimit l)] (append_args (timelimit_args l) l) else l)"

definition add_random_data :: "launcher \<Rightarrow> launcher" where
  "add_random_data l = (if random_data l then append_args (random_data_args l) l else l)"

definition add_results_file :: "(string \<Rightarrow> bool) \<Rightarrow> launcher \<Rightarrow> launcher" where
  "add_results_file is_file l =
     (case tool l of
        Elbencho \<Rightarrow>
          (case stdout l of
             Some (FileObj name) \<Rightarrow>
               if is_file name
               then (let l1 = append_args [''--resfile'', name @ ''.results''] l;
                         l2 = append_args [''--csvfile'', name @ ''.csv''] l1
                     in if livecsv l2 then append_args [''--livecsv'', name @ ''.live.csv''] l2 else l2)
               else l
           | _ \<Rightarrow> l)
      | _ \<Rightarrow> l)"

fun kwargs_tokens :: "(string \<times> pyval) list \<Rightarrow> string list" where
  "kwargs_tokens [] = []"
| "kwargs_tokens ((key, val) # kw) =
     (case val of
        PyBool True \<Rightarrow> [''--'' @ key]
      | _ \<Rightarrow> [''--'' @ key, py_str val]) @ kwargs_tokens kw"

definition add_output_dir :: "launcher \<Rightarrow> launcher" where
  "add_output_dir l =
     (case output_dir l of
        [] \<Rightarrow> l
      | d # ds \<Rightarrow>
         (case tool l of
            Elbencho \<Rightarrow> append_args (output_dir l) l
          | _ \<Rightarrow> append_args [''-o'', d] l))"

text \<open>
  The first statements of \<open>_prep_cmdline\<close>: the scratch buffer is emptied, takes a copy
  of the prefix when there is one, and the binary is appended.
\<close>

definition start_cmdline :: "launcher \<Rightarrow> launcher" where
  "start_cmdline l =
     (let l0 = l\<lparr>cmdline := []\<rparr>;
          l1 = (if prepend_cmdline l0 \<noteq> [] then l0\<lparr>cmdline := prepend_cmdline l0\<rparr> else l0)
      in append_args [binary l1] l1)"

text \<open>
  \<open>_prep_cmdline\<close>. The launcher is returned as the method leaves it, also when it
  raises: the command line built up to that point stays in \<open>_cmdline\<close>.
\<close>

definition prep_cmdline ::
  "string \<Rightarrow> (string \<Rightarrow> bool) \<Rightarrow> string \<Rightarrow> string \<Rightarrow> launcher \<Rightarrow> (error + unit) \<times> launcher"
where
  "prep_cmdline mpirun is_file access pattern l =
     (let l2 = start_cmdline l
      in case add_hosts mpirun l2 of
           Inl e \<Rightarrow> (Inl e, l2)
         | Inr l3 \<Rightarrow>
            (let l4 = add_results_file is_file (add_random_data (add_timelimit l3));
                 l5 = append_args (common_args l4) l4
             in case access_args l5 access of
                  None \<Rightarrow> (Inl (KeyError [access]), l5)
                | Some aa \<Rightarrow>
                   (let l6 = append_args aa l5
                    in case pattern_args l6 pattern of
                         None \<Rightarrow> (Inl (KeyError [pattern]), l6)
                       | Some pa \<Rightarrow>
                          (let l7 = append_args pa l6;
                               l8 = append_args (case access_pattern_args l7 access of
                                              None \<Rightarrow> []
                                            | Some m \<Rightarrow> (case m pattern of None \<Rightarrow> [] | Some xs \<Rightarrow> xs)) l7;
                               l9 = append_args (kwargs_tokens (kwargs l8)) l8
                           in (Inr (), add_output_dir l9)))))"

text \<open>
  The token sequence a call of \<open>run\<close> assembles: what \<open>_prep_cmdline\<close> leaves in
  \<open>_cmdline\<close> after the extra arguments of the call have been merged into \<open>_kwargs\<close>.
\<close>

definition assemble ::
  "string \<Rightarrow> (string \<Rightarrow> bool) \<Rightarrow> string \<Rightarrow> string \<Rightarrow> (string \<times> pyval) list \<Rightarrow> launcher \<Rightarrow> error + string list"
where
  "assemble mpirun is_file acc pat kw l =
     (case prep_cmdline mpirun is_file acc pat (l\<lparr>kwargs := dict_update (kwargs l) kw\<rparr>) of
        (Inl e, l') \<Rightarrow> Inl e
      | (Inr u, l') \<Rightarrow> Inr (cmdline l'))"

text \<open>Two states of a launcher that differ at most in the scratch buffer \<open>_cmdline\<close>.\<close>

definition same_config :: "launcher \<Rightarrow> launcher \<Rightarrow> bool" where
  "same_config l l' = (l'\<lparr>cmdline := cmdline l\<rparr> = l)"

subsection \<open>The operations of a launcher\<close>

definition log_pipe :: "string \<Rightarrow> stream option \<Rightarrow> world \<Rightarrow> world" where
  "log_pipe pipe dest w =
     (case dest of
        None \<Rightarrow> emit (Log DEBUG (''Directing '' @ pipe @ '' to nowhere'')) w
      | Some (FileObj name) \<Rightarrow> emit (Log DEBUG (''Directing '' @ pipe @ '' to '' @ name)) w
      | Some PIPE \<Rightarrow> emit (Log DEBUG (''Directing '' @ pipe @ '' to subprocess.PIPE'')) w)"

text \<open>
  \<open>run\<close>. The two stream arguments are \<open>None\<close> for the default -94720 (use the
  launcher's own destination) and \<open>Some d\<close> for an explicit destination \<open>d\<close>.
\<close>

definition run ::
  "env \<Rightarrow> string \<Rightarrow> string \<Rightarrow> stream option option \<Rightarrow> stream option option \<Rightarrow>
     (string \<times> pyval) list \<Rightarrow> launcher \<Rightarrow> world \<Rightarrow> (error + nat option) \<times> launcher \<times> world"
where
  "run en access pattern out err kw l w =
     (let l1 = l\<lparr>kwargs := dict_update (kwargs l) kw\<rparr>
      in case prep_cmdline (mpirun_bin en) (isfile w) access pattern l1 of
           (Inl e, l2) \<Rightarrow> (Inl e, l2, w)
         | (Inr u, l2) \<Rightarrow>
            (let w1 = emit (Log INFO (''Executing: '' @ join '' '' (cmdline l2))) w
             in if test l2 then (Inr None, l2, w1)
                else (let so = (case out of None \<Rightarrow> stdout l2 | Some d \<Rightarrow> d);
                          se = (case err of None \<Rightarrow> stderr l2 | Some d \<Rightarrow> d);
                          w2 = log_pipe ''stderr'' se (log_pipe ''stdout'' so w1);
                          (pid, w3) = popen (cmdline l2) so se w2
                      in (Inr (Some pid), l2\<lparr>cmdline := []\<rparr>, w3))))"

text \<open>The command line of the service start (elbencho) and of the phases of md-workbench.\<close>

definition srun_cmdline :: "env \<Rightarrow> launcher \<Rightarrow> string list \<Rightarrow> error + string list" where
  "srun_cmdline en l tail =
     (case hosts l of
        None \<Rightarrow> Inl (TypeError ''object of type 'NoneType' has no len()'')
      | Some hs \<Rightarrow>
          Inr ([mpirun_bin en, ''-N'', str_nat (length hs), ''-n'', str_nat (length hs),
                ''--nodelist'', join '','' hs, binary l] @ tail))"

definition preflight :: "env \<Rightarrow> launcher \<Rightarrow> world \<Rightarrow> (error + nat option) \<times> launcher \<times> world" where
  "preflight en l w =
     (case tool l of
        Ior \<Rightarrow> (Inr None, l, w)
      | Elbencho \<Rightarrow>
         (let w1 = emit (Log INFO ''Launching preflight'') w
          in case srun_cmdline en l [''--service'', ''--foreground''] of
               Inl e \<Rightarrow> (Inl e, l, w1)
             | Inr cmd \<Rightarrow>
                (let l1 = l\<lparr>cmdline := cmd\<rparr>;
                     w2 = emit (Log INFO (join '' '' (cmdline l1))) w1
                 in if test l1 then (Inr None, l1, w2)
                    else (let (pid, w3) = popen (cmdline l1) (Some PIPE) (Some PIPE) w2
                          in (Inr None, l1\<lparr>cmdline := []\<rparr>, emit (Sleep 5) w3))))
      | Mdworkbench \<Rightarrow>
         (let w1 = emit (Log INFO ''Launching preflight'') w
          in case srun_cmdline en l [''-1''] of
               Inl e \<Rightarrow> (Inl e, l, w1)
             | Inr cmd \<Rightarrow>
                (let l1 = append_args (common_args l) (l\<lparr>cmdline := cmd\<rparr>);
                     w2 = emit (Log INFO (join '' '' (cmdline l1))) w1
                 in if test l1 then (Inr None, l1, w2)
                    else (let (pid, w3) = popen (cmdline l1) (Some PIPE) (Some PIPE) w2
                          in (Inr (Some pid), l1\<lparr>cmdline := []\<rparr>, w3)))))"

definition teardown ::
  "env \<Rightarrow> string \<Rightarrow> string \<Rightarrow> (string \<times> pyval) list \<Rightarrow> launcher \<Rightarrow> world \<Rightarrow>
     (error + nat option) \<times> launcher \<times> world"
where
  "teardown en access pattern kw l w =
     (case tool l of
        Ior \<Rightarrow> (Inr None, l, w)
      | Elbencho \<Rightarrow>
         (let w1 = emit (Log INFO ''Launching teardown - file cleanup'') w;
              out = stdout l;
              err = stderr l;
              l1 = l\<lparr>stdout := None, stderr := None\<rparr>
          in case run en ''clean'' pattern (Some (Some PIPE)) (Some (Some PIPE)) kw l1 w1 of
               (Inl e, l2, w2) \<Rightarrow> (Inl e, l2, w2)
             | (Inr proc, l2, w2) \<Rightarrow>
                (let l3 = l2\<lparr>stdout := out, stderr := err\<rparr>;
                     w3 = (case proc of None \<Rightarrow> w2 | Some pid \<Rightarrow> emit (Wait pid) w2);
                     w4 = emit (Log INFO ''Launching teardown - service shutdown'') w3;
                     l4 = l3\<lparr>cmdline := [binary l3, ''--quit'']\<rparr>
                 in case add_hosts (mpirun_bin en) l4 of
                      Inl e \<Rightarrow> (Inl e, l4, w4)
                    | Inr l5 \<Rightarrow>
                       (let w5 = emit (Log INFO (join '' '' (cmdline l5))) w4
                        in if test l5 then (Inr None, l5, w5)
                           else (let (pid, w6) = popen (cmdline l5) (Some PIPE) (Some PIPE) w5
                                 in (Inr (Some pid), l5\<lparr>cmdline := []\<rparr>, emit (Sleep 5) w6)))))
      | Mdworkbench \<Rightarrow>
         (let w1 = emit (Log INFO ''Launching teardown - file cleanup'') w
          in case srun_cmdline en l [''-3''] of
               Inl e \<Rightarrow> (Inl e, l, w1)
             | Inr cmd \<Rightarrow>
                (let l1 = append_args (common_args l) (l\<lparr>cmdline := cmd\<rparr>);
                     w2 = emit (Log INFO (join '' '' (cmdline l1))) w1
                 in if test l1 then (Inr None, l1, w2)
                    else (let (pid, w3) = popen (cmdline l1) (Some PIPE) (Some PIPE) w2
                          in (Inr (Some pid), l1\<lparr>cmdline := []\<rparr>, emit (Sleep 5) w3)))))"

text \<open>The subprocesses created so far.\<close>

fun is_popen :: "event \<Rightarrow> bool" where
  "is_popen (Popen cmd out err pid) = True"
| "is_popen e = False"

definition popens :: "world \<Rightarrow> event list" where
  "popens w = filter is_popen (trace w)"

section \<open>iopup.py: the scheduler\<close>

text \<open>
  A workload dictionary. \<open>workload\<close> is the role label, a key the drivers read but the
  documented form of the dictionary does not list; the last five keys are written by the
  drivers before they are read.
\<close>

record descriptor =
  launcher :: launcher
  access :: string
  pattern :: string
  workload :: "string option"
  jobid :: string
  nnodes :: nat
  pnodes :: nat
  snodes :: nat
  contention :: string

text \<open>
  The serial loops of \<open>run_launchers\<close>: the i-th workload's launcher is called, and a
  handle it returns is waited on before the next workload. An exception ends the loop.
\<close>

fun serial_calls ::
  "phase \<Rightarrow> (descriptor \<Rightarrow> launcher \<Rightarrow> world \<Rightarrow> (error + nat option) \<times> launcher \<times> world) \<Rightarrow>
     nat \<Rightarrow> descriptor list \<Rightarrow> world \<Rightarrow> (error + unit) \<times> descriptor list \<times> world"
where
  "serial_calls ph op i [] w = (Inr (), [], w)"
| "serial_calls ph op i (d # ds) w =
     (case op d (launcher d) (emit (Call ph i) w) of
        (Inl e, l', w1) \<Rightarrow> (Inl e, d\<lparr>launcher := l'\<rparr> # ds, w1)
      | (Inr prep_p, l', w1) \<Rightarrow>
         (let w2 = emit (Ret ph i prep_p) w1;
              w3 = (case prep_p of None \<Rightarrow> w2 | Some pid \<Rightarrow> emit (Wait pid) w2)
          in case serial_calls ph op (Suc i) ds w3 of
               (r, ds', w4) \<Rightarrow> (r, d\<lparr>launcher := l'\<rparr> # ds', w4)))"

text \<open>
  \<open>_run_and_wait_after_delay\<close> runs in a thread of the pool, so the steps of the workers
  interleave. A worker is at one of these points: about to sleep, about to call \<open>run\<close>,
  about to read the start time (holding the handle), about to wait (holding the handle
  and the start time), about to read the end time, or returned.
\<close>

datatype worker = WSleep | WRun | WStart "nat option" | WWait "nat option" nat | WEnd nat | WDone nat nat

record pool =
  workloads :: "descriptor list"
  workers :: "worker list"
  outside :: world
  failure :: "error option"

text \<open>One step of worker \<open>i\<close>. Nothing moves once a worker has raised.\<close>

definition worker_step :: "env \<Rightarrow> nat \<Rightarrow> nat \<Rightarrow> pool \<Rightarrow> pool" where
  "worker_step en delay i p =
     (if failure p \<noteq> None \<or> i \<ge> length (workers p) \<or> i \<ge> length (workloads p) then p
      else (let d = workloads p ! i; w = outside p in
        case workers p ! i of
          WSleep \<Rightarrow> p\<lparr>workers := (workers p)[i := WRun], outside := emit (Sleep (delay * i)) w\<rparr>
        | WRun \<Rightarrow>
           (case run en (access d) (pattern d) None None [] (launcher d) (emit (Call Run i) w) of
              (Inl e, l', w1) \<Rightarrow>
                p\<lparr>workloads := (workloads p)[i := d\<lparr>launcher := l'\<rparr>], outside := w1, failure := Some e\<rparr>
            | (Inr proc, l', w1) \<Rightarrow>
                p\<lparr>workloads := (workloads p)[i := d\<lparr>launcher := l'\<rparr>],
                  workers := (workers p)[i := WStart proc],
                  outside := emit (Ret Run i proc) w1\<rparr>)
        | WStart proc \<Rightarrow>
           (let (time0, w1) = time_time en w
            in p\<lparr>workers := (workers p)[i := WWait proc time0], outside := w1\<rparr>)
        | WWait proc time0 \<Rightarrow>
           p\<lparr>workers := (workers p)[i := WEnd time0],
             outside := (case proc of None \<Rightarrow> w | Some pid \<Rightarrow> emit (Wait pid) w)\<rparr>
        | WEnd time0 \<Rightarrow>
           (let (timef, w1) = time_time en w
            in p\<lparr>workers := (workers p)[i := WDone time0 timef], outside := emit (Stamp i time0 timef) w1\<rparr>)
        | WDone time0 timef \<Rightarrow> p))"

text \<open>
  The threads take their steps in the order the environment gives; whatever that order
  leaves undone is then run to the end, worker by worker (a worker needs five steps).
\<close>

definition drain :: "nat \<Rightarrow> nat list" where
  "drain n = concat (map (replicate 5) [0..<n])"

definition stamps :: "worker \<Rightarrow> nat \<times> nat" where
  "stamps s = (case s of WDone time0 timef \<Rightarrow> (time0, timef) | _ \<Rightarrow> (0, 0))"

text \<open>
  \<open>ThreadPool(len(workloads))\<close> with \<open>pool.starmap\<close>: a pool of no thread is refused; the
  results come in the order of the workloads; an exception in a worker is raised again.
\<close>

definition pool_results :: "pool \<Rightarrow> (error + (nat \<times> nat) list) \<times> descriptor list \<times> world" where
  "pool_results p =
     (case failure p of
        Some e \<Rightarrow> (Inl e, workloads p, outside p)
      | None \<Rightarrow> (Inr (map stamps (workers p)), workloads p, outside p))"

definition starmap ::
  "env \<Rightarrow> nat \<Rightarrow> descriptor list \<Rightarrow> world \<Rightarrow> (error + (nat \<times> nat) list) \<times> descriptor list \<times> world"
where
  "starmap en delay ds w =
     (if ds = [] then (Inl (ValueError ''Number of processes must be at least 1''), ds, w)
      else pool_results
             (fold (worker_step en delay) (schedule en (pools w) @ drain (length ds))
                \<lparr>workloads = ds, workers = replicate (length ds) WSleep,
                  outside = w\<lparr>pools := Suc (pools w)\<rparr>, failure = None\<rparr>))"

definition run_launchers ::
  "env \<Rightarrow> nat \<Rightarrow> descriptor list \<Rightarrow> world \<Rightarrow> (error + (nat \<times> nat) list) \<times> descriptor list \<times> world"
where
  "run_launchers en delay ds w =
     (case serial_calls Preflight (\<lambda>d. preflight en) 0 ds w of
        (Inl e, ds1, w1) \<Rightarrow> (Inl e, ds1, w1)
      | (Inr u, ds1, w1) \<Rightarrow>
         (case starmap en delay ds1 w1 of
            (Inl e, ds2, w2) \<Rightarrow> (Inl e, ds2, w2)
          | (Inr results, ds2, w2) \<Rightarrow>
             (case serial_calls Teardown (\<lambda>d. teardown en (access d) (pattern d) []) 0 ds2
                     (emit (Sleep 5) w2) of
                (Inl e, ds3, w3) \<Rightarrow> (Inl e, ds3, w3)
              | (Inr u, ds3, w3) \<Rightarrow> (Inr results, ds3, w3))))"

section \<open>iopup.py: the interference drivers\<close>

text \<open>
  \<open>"{workload}_{contention}.{pnodes:d}p-{snodes:d}s.{jobid}.out".format(**workload)\<close> and
  the log line of a launch; both need the key \<open>workload\<close>.
\<close>

definition output_filename :: "descriptor \<Rightarrow> error + string" where
  "output_filename d =
     (case workload d of
        None \<Rightarrow> Inl (KeyError [''workload''])
      | Some r \<Rightarrow> Inr (r @ ''_'' @ contention d @ ''.'' @ str_nat (pnodes d) @ ''p-''
                        @ str_nat (snodes d) @ ''s.'' @ jobid d @ ''.out''))"

definition launching :: "descriptor \<Rightarrow> error + string" where
  "launching d =
     (case workload d of
        None \<Rightarrow> Inl (KeyError [''workload''])
      | Some r \<Rightarrow> Inr (''Launching '' @ contention d @ '' '' @ access d @ '' '' @ pattern d
                        @ '' on '' @ str_nat (nnodes d) @ '' '' @ r @ '' nodes''))"

text \<open>
  The label loop: the job id (the fallback reads the clock whether it is used or not) and
  the number of hosts of the launcher.
\<close>

fun init_labels :: "env \<Rightarrow> descriptor list \<Rightarrow> world \<Rightarrow> (error + unit) \<times> descriptor list \<times> world" where
  "init_labels en [] w = (Inr (), [], w)"
| "init_labels en (d # ds) w =
     (let (t, w1) = time_time en w;
          d1 = d\<lparr>jobid := (case slurm_jobid en of None \<Rightarrow> str_nat t | Some j \<Rightarrow> j)\<rparr>
      in case hosts (launcher d1) of
           None \<Rightarrow> (Inl (TypeError ''object of type 'NoneType' has no len()''), d1 # ds, w1)
         | Some hs \<Rightarrow>
            (case init_labels en ds w1 of
               (r, ds', w2) \<Rightarrow> (r, d1\<lparr>nnodes := length hs\<rparr> # ds', w2)))"

text \<open>
  Logging the launch, opening the output file of the phase and pointing the launcher's
  stdout and stderr at it.
\<close>

definition open_outputs :: "descriptor \<Rightarrow> world \<Rightarrow> (error + unit) \<times> descriptor \<times> world" where
  "open_outputs d w =
     (case launching d of
        Inl e \<Rightarrow> (Inl e, d, w)
      | Inr msg \<Rightarrow>
         (let w1 = emit (Log INFO msg) w
          in case output_filename d of
               Inl e \<Rightarrow> (Inl e, d, w1)
             | Inr name \<Rightarrow>
                (let (f, w2) = open_append name w1;
                     l1 = (launcher d)\<lparr>stdout := Some f\<rparr>;
                     l2 = l1\<lparr>stderr := stdout l1\<rparr>
                 in (Inr (), d\<lparr>launcher := l2\<rparr>, w2))))"

text \<open>One isolated run: the workload alone through the scheduler, labelled quiet.\<close>

definition quiet_run :: "env \<Rightarrow> descriptor \<Rightarrow> world \<Rightarrow> (error + unit) \<times> descriptor \<times> world" where
  "quiet_run en d w =
     (let d1 = d\<lparr>contention := ''quiet''\<rparr>
      in case open_outputs d1 w of
           (Inl e, d2, w1) \<Rightarrow> (Inl e, d2, w1)
         | (Inr u, d2, w1) \<Rightarrow>
            (case run_launchers en 0 [d2] w1 of
               (Inl e, ds, w2) \<Rightarrow> (Inl e, (case ds of [] \<Rightarrow> d2 | d3 # x \<Rightarrow> d3), w2)
             | (Inr timestamps, ds, w2) \<Rightarrow>
                (let d3 = (case ds of [] \<Rightarrow> d2 | d3 # x \<Rightarrow> d3)
                 in case timestamps of
                      [] \<Rightarrow> (Inl (IndexError ''list index out of range''), d3, w2)
                    | (t0, tf) # x \<Rightarrow>
                        (Inr (), d3, emit (Finished (contention d3) None t0 tf) w2))))"

text \<open>
  The loop of \<open>run_interference\<close> over the workloads to run in isolation, given by their
  positions in the list.
\<close>

fun quiet_runs ::
  "env \<Rightarrow> nat list \<Rightarrow> descriptor list \<Rightarrow> world \<Rightarrow> (error + unit) \<times> descriptor list \<times> world"
where
  "quiet_runs en [] ds w = (Inr (), ds, w)"
| "quiet_runs en (i # js) ds w =
     (case quiet_run en (ds ! i) w of
        (Inl e, d', w1) \<Rightarrow> (Inl e, ds[i := d'], w1)
      | (Inr u, d', w1) \<Rightarrow> quiet_runs en js (ds[i := d']) w1)"

text \<open>
  The loop of \<open>run_symmetric_interference\<close> over all workloads, which also writes the node
  counts of the first and of the second workload into each.
\<close>

fun symmetric_quiet_runs ::
  "env \<Rightarrow> nat list \<Rightarrow> descriptor list \<Rightarrow> world \<Rightarrow> (error + unit) \<times> descriptor list \<times> world"
where
  "symmetric_quiet_runs en [] ds w = (Inr (), ds, w)"
| "symmetric_quiet_runs en (i # js) ds w =
     (let d1 = (ds ! i)\<lparr>pnodes := nnodes (ds ! 0)\<rparr>
      in if length ds < 2 then (Inl (IndexError ''tuple index out of range''), ds[i := d1], w)
         else (case quiet_run en (d1\<lparr>snodes := nnodes (ds ! 1)\<rparr>) w of
                 (Inl e, d', w1) \<Rightarrow> (Inl e, ds[i := d'], w1)
               | (Inr u, d', w1) \<Rightarrow> symmetric_quiet_runs en js (ds[i := d']) w1))"

text \<open>Relabelling every workload noisy and opening its output file.\<close>

fun noisy_labels :: "descriptor list \<Rightarrow> world \<Rightarrow> (error + unit) \<times> descriptor list \<times> world" where
  "noisy_labels [] w = (Inr (), [], w)"
| "noisy_labels (d # ds) w =
     (case open_outputs (d\<lparr>contention := ''noisy''\<rparr>) w of
        (Inl e, d1, w1) \<Rightarrow> (Inl e, d1 # ds, w1)
      | (Inr u, d1, w1) \<Rightarrow>
         (case noisy_labels ds w1 of (r, ds', w2) \<Rightarrow> (r, d1 # ds', w2)))"

fun log_finished :: "nat \<Rightarrow> (nat \<times> nat) list \<Rightarrow> world \<Rightarrow> world" where
  "log_finished i [] w = w"
| "log_finished i ((t0, tf) # ts) w =
     log_finished (Suc i) ts (emit (Finished ''noisy workload'' (Some i) t0 tf) w)"

text \<open>The noisy phase: all workloads together through one scheduler invocation.\<close>

definition noisy_run ::
  "env \<Rightarrow> nat \<Rightarrow> descriptor list \<Rightarrow> world \<Rightarrow> (error + unit) \<times> descriptor list \<times> world"
where
  "noisy_run en delay ds w =
     (case noisy_labels ds w of
        (Inl e, ds1, w1) \<Rightarrow> (Inl e, ds1, w1)
      | (Inr u, ds1, w1) \<Rightarrow>
         (case run_launchers en delay ds1 w1 of
            (Inl e, ds2, w2) \<Rightarrow> (Inl e, ds2, w2)
          | (Inr timestamps, ds2, w2) \<Rightarrow> (Inr (), ds2, log_finished 0 timestamps w2)))"

definition run_symmetric_interference ::
  "env \<Rightarrow> descriptor list \<Rightarrow> world \<Rightarrow> (error + unit) \<times> descriptor list \<times> world"
where
  "run_symmetric_interference en ds w =
     (case init_labels en ds w of
        (Inl e, ds1, w1) \<Rightarrow> (Inl e, ds1, w1)
      | (Inr u, ds1, w1) \<Rightarrow>
         if length ds1 > 2
         then (Inl (NotImplementedError ''more than two workloads provided''), ds1, w1)
         else (case symmetric_quiet_runs en [0..<length ds1] ds1 w1 of
                 (Inl e, ds2, w2) \<Rightarrow> (Inl e, ds2, w2)
               | (Inr u, ds2, w2) \<Rightarrow> noisy_run en 0 ds2 w2))"

text \<open>\<open>isolate.lower()[0]\<close> and the choice of the workloads to run in isolation.\<close>

definition lower_char :: "char \<Rightarrow> char" where
  "lower_char c =
     (if 65 \<le> (of_char c :: nat) \<and> (of_char c :: nat) \<le> 90 then char_of ((of_char c :: nat) + 32) else c)"

definition isolated_runs :: "string \<Rightarrow> error + nat list" where
  "isolated_runs isolate =
     (case isolate of
        [] \<Rightarrow> Inl (IndexError ''string index out of range'')
      | c # cs \<Rightarrow>
         (if lower_char c = CHR ''b'' then Inr [0, 1]
          else if lower_char c = CHR ''p'' then Inr [0]
          else if lower_char c = CHR ''s'' then Inr [1]
          else Inl (ValueError ''isolate must be one of: primary secondary both'')))"

text \<open>
  \<open>run_interference\<close>; the two dictionaries are kept as the list [primary, secondary].
\<close>

definition run_interference ::
  "env \<Rightarrow> descriptor \<Rightarrow> descriptor \<Rightarrow> nat \<Rightarrow> string \<Rightarrow> world \<Rightarrow>
     (error + unit) \<times> descriptor list \<times> world"
where
  "run_interference en primary secondary delay isolate w =
     (case isolated_runs isolate of
        Inl e \<Rightarrow> (Inl e, [primary, secondary], w)
      | Inr runs \<Rightarrow>
         (case init_labels en [primary, secondary] w of
            (Inl e, ds1, w1) \<Rightarrow> (Inl e, ds1, w1)
          | (Inr u, ds1, w1) \<Rightarrow>
             (let ds2 = map (\<lambda>d. d\<lparr>pnodes := nnodes (ds1 ! 0), snodes := nnodes (ds1 ! 1)\<rparr>) ds1
              in case quiet_runs en runs ds2 w1 of
                   (Inl e, ds3, w2) \<Rightarrow> (Inl e, ds3, w2)
                 | (Inr u, ds3, w2) \<Rightarrow> noisy_run en delay ds3 w2)))"

section \<open>Example configurations\<close>

text \<open>
  An environment, an empty world and one launcher of each class, as the constructors leave
  them for two hosts and four processes per node.
\<close>

definition en0 :: env where
  "en0 = \<lparr> mpirun_bin = ''srun'', slurm_jobid = Some ''123'',
           wallclock = (\<lambda>k. 1000 + 10 * k), schedule = (\<lambda>k. [1, 0, 0, 1]) \<rparr>"

definition w0 :: world where
  "w0 = \<lparr> trace = [], next_pid = 0, clock_reads = 0, pools = 0, files = [] \<rparr>"

definition ior0 :: launcher where
  "ior0 = \<lparr> tool = Ior, binary = ''ior'', hosts = Some [''n1'', ''n2''], ppn = 4,
            output_dir = [''/scratch/out''], timelimit = 45, timelimit_args = [''-D''],
            random_data = True, random_data_args = [''-l'', ''random''], test = False,
            kwargs = [], cmdline = [], common_args = [''-F''],
            access_args = [''write'' \<mapsto> [''-w''], ''read'' \<mapsto> [''-r'']],
            pattern_args = [''bw'' \<mapsto> [''-t'', ''1m''], ''iops'' \<mapsto> [''-t'', ''4k'', ''-z'']],
            access_pattern_args = Map.empty,
            prepend_cmdline = [''srun'', ''-N'', ''2'', ''-n'', ''8''],
            stdout = None, stderr = None, livecsv = False \<rparr>"

definition elb0 :: launcher where
  "elb0 = \<lparr> tool = Elbencho, binary = ''elbencho'', hosts = Some [''n1'', ''n2''], ppn = 4,
            output_dir = [''/scratch/out''], timelimit = 45, timelimit_args = [''--timelimit''],
            random_data = True, random_data_args = [''--blockvarpct'', ''100''], test = False,
            kwargs = [], cmdline = [], common_args = [''--threads'', ''4'', ''--sync''],
            access_args = [''write'' \<mapsto> [''--write''], ''read'' \<mapsto> [''--read''],
                           ''clean'' \<mapsto> [''--delfiles'']],
            pattern_args = [''bw'' \<mapsto> [''--size'', ''1t'', ''--block'', ''1m'']],
            access_pattern_args = Map.empty,
            prepend_cmdline = [],
            stdout = Some (FileObj ''primary_quiet.2p-2s.123.out''),
            stderr = Some (FileObj ''primary_quiet.2p-2s.123.out''), livecsv = False \<rparr>"

definition mdw0 :: launcher where
  "mdw0 = \<lparr> tool = Mdworkbench, binary = ''md-workbench'', hosts = Some [''n1'', ''n2''], ppn = 4,
            output_dir = [''/scratch/out''], timelimit = 0, timelimit_args = [],
            random_data = False, random_data_args = [], test = False,
            kwargs = [], cmdline = [], common_args = [''-R'', ''2''],
            access_args = [''write'' \<mapsto> [''-2'']],
            pattern_args = [''iops'' \<mapsto> [''-P'', ''10'']],
            access_pattern_args = Map.empty,
            prepend_cmdline = [''srun'', ''-N'', ''2'', ''-n'', ''8''],
            stdout = None, stderr = None, livecsv = False \<rparr>"

text \<open>Two workload dictionaries as \<open>main\<close> builds them, on dry-run IOR launchers.\<close>

definition prim0 :: descriptor where
  "prim0 = \<lparr> launcher = ior0\<lparr>test := True\<rparr>, access = ''write'', pattern = ''bw'',
             workload = Some ''primary'', jobid = [], nnodes = 0, pnodes = 0, snodes = 0,
             contention = [] \<rparr>"

definition sec0 :: descriptor where
  "sec0 = \<lparr> launcher = ior0\<lparr>test := True\<rparr>, access = ''read'', pattern = ''iops'',
            workload = Some ''secondary'', jobid = [], nnodes = 0, pnodes = 0, snodes = 0,
            contention = [] \<rparr>"

section \<open>Properties of the loss report\<close>

lemma loss_row_pivot1:
  "loss_row (columns (pivot1 k q n)) [(''quiet'', ''primary'') \<mapsto> q, (''noisy'', ''primary'') \<mapsto> n]
     = [(''primary'', fscale (fsub (Some q) (Some n)) (Some q))]"
  by (simp add: loss_row_def loss_entry_def row_loc_def pivot1_def)

lemma loss_frame_pivot1:
  "loss_frame (pivot1 k q n) = Inr [(k, [(''primary'', fscale (fsub (Some q) (Some n)) (Some q))])]"
  using loss_row_pivot1 [of k q n]
  by (simp add: loss_frame_def from_records_def pivot1_def)

text \<open>
  C4 (as stated in the specification, refuted): with quiet = 100 and noisy = 80 for the
  primary workload the loss entry of that pair would be 25.0. The code computes
  (100 - 80) * (100.0 / 100) = 20.0.
\<close>

theorem C4_loss_is_not_25:
  "loss_at (loss_frame (pivot1 (4, 2) 100 80)) (4, 2) ''primary'' \<noteq> Some (Some 25)"
  by (simp add: loss_frame_pivot1 loss_at_def fscale_def fsub_def)

text \<open>
  C4 (amended): for any node-count pair, a performance pivot with quiet = 100 and
  noisy = 80 for the primary workload yields the loss entry 20.0 for that workload at
  that pair.
\<close>

theorem C4_loss_is_20:
  "loss_at (loss_frame (pivot1 k 100 80)) k ''primary'' = Some (Some 20)"
  by (simp add: loss_frame_pivot1 loss_at_def fscale_def fsub_def)











section \<open>Properties of the launchers\<close>

lemma same_configI: "l' = l\<lparr>cmdline := c\<rparr> \<Longrightarrow> same_config l l'"
  by (simp add: same_config_def)

lemma same_configD: "same_config l l' \<Longrightarrow> l' = l\<lparr>cmdline := cmdline l'\<rparr>"
  unfolding same_config_def by (cases l, cases l') auto

lemma same_config_refl [simp]: "same_config l l"
  by (simp add: same_config_def)

lemma same_config_trans: "same_config a b \<Longrightarrow> same_config b c \<Longrightarrow> same_config a c"
  unfolding same_config_def by (cases a, cases b, cases c) auto

lemma same_config_upd [simp]: "same_config l (l\<lparr>cmdline := c\<rparr>)"
  by (simp add: same_config_def)

lemma same_config_upd2: "same_config l l' \<Longrightarrow> same_config l (l'\<lparr>cmdline := c\<rparr>)"
  unfolding same_config_def by (cases l, cases l') auto

lemma same_config_fields:
  assumes "same_config l l'"
  shows "tool l' = tool l" "binary l' = binary l" "hosts l' = hosts l"
    "output_dir l' = output_dir l" "timelimit l' = timelimit l"
    "timelimit_args l' = timelimit_args l" "random_data l' = random_data l"
    "random_data_args l' = random_data_args l" "test l' = test l" "kwargs l' = kwargs l"
    "common_args l' = common_args l" "access_args l' = access_args l"
    "pattern_args l' = pattern_args l" "access_pattern_args l' = access_pattern_args l"
    "prepend_cmdline l' = prepend_cmdline l" "stdout l' = stdout l" "stderr l' = stderr l"
    "livecsv l' = livecsv l" "ppn l' = ppn l"
  using assms unfolding same_config_def by (cases l, cases l', auto)+

lemma append_args_same: "same_config l x \<Longrightarrow> same_config l (append_args xs x)"
  by (simp add: append_args_def same_config_upd2)

lemma add_hosts_same: "add_hosts m x = Inr l' \<Longrightarrow> same_config l x \<Longrightarrow> same_config l l'"
  by (auto simp: add_hosts_def split: option.splits tool.splits list.splits if_splits
      intro: append_args_same same_config_upd2)

lemma add_timelimit_same: "same_config l x \<Longrightarrow> same_config l (add_timelimit x)"
  by (simp add: add_timelimit_def append_args_same)

lemma add_random_data_same: "same_config l x \<Longrightarrow> same_config l (add_random_data x)"
  by (simp add: add_random_data_def append_args_same)

lemma add_results_file_same: "same_config l x \<Longrightarrow> same_config l (add_results_file f x)"
  by (simp add: add_results_file_def append_args_same Let_def
      split: tool.splits option.splits stream.splits)

lemma add_output_dir_same: "same_config l x \<Longrightarrow> same_config l (add_output_dir x)"
  by (simp add: add_output_dir_def append_args_same split: tool.splits list.splits)

lemmas same_intros = append_args_same add_timelimit_same add_random_data_same
  add_results_file_same add_output_dir_same same_config_upd2 same_config_refl

lemma start_cmdline_eq: "start_cmdline l = l\<lparr>cmdline := prepend_cmdline l @ [binary l]\<rparr>"
  by (simp add: start_cmdline_def append_args_def Let_def)

lemmas append_args_fields [simp] = same_config_fields [OF append_args_same [OF same_config_refl]]
lemmas add_timelimit_fields [simp] = same_config_fields [OF add_timelimit_same [OF same_config_refl]]
lemmas add_random_data_fields [simp] = same_config_fields [OF add_random_data_same [OF same_config_refl]]
lemmas add_results_file_fields [simp] = same_config_fields [OF add_results_file_same [OF same_config_refl]]
lemmas add_output_dir_fields [simp] = same_config_fields [OF add_output_dir_same [OF same_config_refl]]

lemma prep_cmdline_same: "same_config l (snd (prep_cmdline m f a p l))"
proof (cases "add_hosts m (start_cmdline l)")
  case (Inl e)
  then show ?thesis by (simp add: prep_cmdline_def start_cmdline_eq)
next
  case (Inr l3)
  have s3: "same_config l l3"
    by (rule add_hosts_same [OF Inr]) (simp add: start_cmdline_eq)
  show ?thesis
    unfolding prep_cmdline_def Let_def
    by (auto simp: Inr split: option.splits intro!: same_intros s3)
qed

lemma prep_cmdline_scratch:
  "prep_cmdline m f a p (l\<lparr>cmdline := c\<rparr>) = prep_cmdline m f a p l"
  by (simp add: prep_cmdline_def start_cmdline_eq)

lemma run_same:
  "same_config (l\<lparr>kwargs := dict_update (kwargs l) kw\<rparr>) (fst (snd (run en a p out err kw l w)))"
proof -
  let ?l1 = "l\<lparr>kwargs := dict_update (kwargs l) kw\<rparr>"
  obtain r l2 where p: "prep_cmdline (mpirun_bin en) (isfile w) a p ?l1 = (r, l2)"
    by (cases "prep_cmdline (mpirun_bin en) (isfile w) a p ?l1")
  have s: "same_config ?l1 l2"
    using prep_cmdline_same [of ?l1 "mpirun_bin en" "isfile w" a p] p by simp
  show ?thesis
    unfolding run_def Let_def p
    by (cases r) (auto simp: s same_config_upd2 split: prod.splits)
qed

text \<open>
  C1 (amended): the outcome of a call of \<open>run\<close> (its result, the launcher it leaves and
  everything it does to the outside, hence the token sequence it assembles) is a function
  of the environment, the call's arguments and the launcher's fields other than the scratch
  buffer \<open>_cmdline\<close>: whatever a prior call left in that buffer has no influence. The
  extra arguments of a call are merged into the launcher's retained \<open>_kwargs\<close>, which
  later calls read.
\<close>

theorem C1_scratch_buffer_ignored:
  "run en acc pat out err kw (l\<lparr>cmdline := c\<rparr>) w = run en acc pat out err kw l w
   \<and> kwargs (fst (snd (run en acc pat out err kw l w))) = dict_update (kwargs l) kw"
proof -
  have "(l\<lparr>cmdline := c\<rparr>)\<lparr>kwargs := dict_update (kwargs (l\<lparr>cmdline := c\<rparr>)) kw\<rparr>
      = (l\<lparr>kwargs := dict_update (kwargs l) kw\<rparr>)\<lparr>cmdline := c\<rparr>"
    by simp
  then have a: "run en acc pat out err kw (l\<lparr>cmdline := c\<rparr>) w = run en acc pat out err kw l w"
    unfolding run_def Let_def by (simp only: prep_cmdline_scratch)
  have b: "kwargs (fst (snd (run en acc pat out err kw l w))) = dict_update (kwargs l) kw"
    using same_config_fields(10) [OF run_same [of l kw en acc pat out err w]] by simp
  show ?thesis using a b by blast
qed

lemma digit_chars:
  "digit_char 0 = CHR ''0''" "digit_char 1 = CHR ''1''" "digit_char 2 = CHR ''2''"
  "digit_char 3 = CHR ''3''" "digit_char 4 = CHR ''4''" "digit_char 5 = CHR ''5''"
  "digit_char 6 = CHR ''6''" "digit_char 7 = CHR ''7''" "digit_char 8 = CHR ''8''"
  "digit_char 9 = CHR ''9''" "digit_char (Suc 0) = CHR ''1''"
  by (code_simp)+

lemma str_nat_small:
  "str_nat 2 = ''2''" "str_nat 45 = ''45''" "str_nat 0 = ''0''" "str_nat 1 = ''1''" "str_nat 3 = ''3''"
  by (simp_all add: str_nat.simps digit_chars)

lemma str_nat_Suc:
  "str_nat (Suc 0) = ''1''" "str_nat (Suc (Suc 0)) = ''2''" "str_nat (Suc (Suc (Suc 0))) = ''3''"
  using str_nat_small by (simp_all add: numeral_2_eq_2 numeral_3_eq_3)

lemmas run_eval = run_def prep_cmdline_def start_cmdline_def add_hosts_def add_timelimit_def
  add_random_data_def add_results_file_def add_output_dir_def append_args_def Let_def
  emit_def popen_def log_pipe_def isfile_def str_int_def str_nat_small str_nat_Suc

text \<open>
  C1 (as stated in the specification, refuted): two calls with the same configuration and
  the same call arguments (write, bw, no extra argument) on a dry-run IOR launcher assemble
  different token sequences when one of them follows a call that passed the extra argument
  \<open>verbose=True\<close>: the later call still emits \<open>--verbose\<close>.
\<close>

theorem C1_extra_arguments_persist:
  "cmdline (fst (snd (run en0 ''write'' ''bw'' None None []
       (fst (snd (run en0 ''write'' ''bw'' None None [(''verbose'', PyBool True)] (ior0\<lparr>test := True\<rparr>) w0)))
       w0)))
   \<noteq> cmdline (fst (snd (run en0 ''write'' ''bw'' None None [] (ior0\<lparr>test := True\<rparr>) w0)))"
  by (simp add: run_eval en0_def ior0_def w0_def)

lemma add_hosts_start_ok:
  assumes "tool l = Elbencho \<or> hosts l = None \<or> hd (prepend_cmdline l @ [binary l]) = m"
  shows "\<exists>l3. add_hosts m (start_cmdline l) = Inr l3"
  using assms
  by (cases "prepend_cmdline l")
     (auto simp: add_hosts_def start_cmdline_eq split: option.splits tool.splits list.splits)

lemma prep_cmdline_missing_key:
  assumes "access_args l a = None \<or> pattern_args l p = None"
  shows "\<exists>e l'. prep_cmdline m f a p l = (Inl e, l')
     \<and> (tool l = Elbencho \<or> hosts l = None \<or> hd (prepend_cmdline l @ [binary l]) = m
          \<longrightarrow> e = KeyError [if access_args l a = None then a else p])"
proof (cases "add_hosts m (start_cmdline l)")
  case (Inl e)
  then show ?thesis
    using add_hosts_start_ok [of l m] by (auto simp: prep_cmdline_def)
next
  case (Inr l3)
  have s3: "same_config l l3"
    by (rule add_hosts_same [OF Inr]) (simp add: start_cmdline_eq)
  note f = same_config_fields [OF s3]
  show ?thesis
    using assms unfolding prep_cmdline_def Let_def
    by (auto simp: Inr f split: option.splits)
qed

text \<open>
  C3: for every launcher class, \<open>run\<close> with an access mode or a pattern that is not a key
  of the launcher's argument tables raises, and leaves the outside as it was: nothing is
  logged and no subprocess is created. The exception is the KeyError of the missing key
  (the access mode is looked up first) whenever the host enumeration passes, that is, for
  elbencho, without a host list, or when the command line starts with \<open>MPIRUN_BIN\<close>, as
  the constructors of the other two classes make it.
\<close>

theorem C3_unknown_key_fails:
  assumes "access_args l acc = None \<or> pattern_args l pat = None"
  shows "\<exists>e l'. run en acc pat out err kw l w = (Inl e, l', w)
     \<and> (tool l = Elbencho \<or> hosts l = None \<or> hd (prepend_cmdline l @ [binary l]) = mpirun_bin en
          \<longrightarrow> e = KeyError [if access_args l acc = None then acc else pat])"
proof -
  let ?l1 = "l\<lparr>kwargs := dict_update (kwargs l) kw\<rparr>"
  have "access_args ?l1 acc = None \<or> pattern_args ?l1 pat = None" using assms by simp
  from prep_cmdline_missing_key [OF this, of "mpirun_bin en" "isfile w"]
  obtain e l' where p: "prep_cmdline (mpirun_bin en) (isfile w) acc pat ?l1 = (Inl e, l')"
    and k: "tool l = Elbencho \<or> hosts l = None \<or> hd (prepend_cmdline l @ [binary l]) = mpirun_bin en
          \<longrightarrow> e = KeyError [if access_args l acc = None then acc else pat]"
    by auto
  have "run en acc pat out err kw l w = (Inl e, l', w)"
    by (simp add: run_def Let_def p)
  with k show ?thesis by blast
qed

theorem C3_unknown_key_fails_witness:
  "access_args ior0 ''append'' = None
   \<and> fst (run en0 ''append'' ''bw'' None None [] ior0 w0) = Inl (KeyError [''append''])
   \<and> snd (snd (run en0 ''append'' ''bw'' None None [] ior0 w0)) = w0"
proof -
  have a: "access_args ior0 ''append'' = None \<or> pattern_args ior0 ''bw'' = None"
    by (simp add: ior0_def)
  have h: "hd (prepend_cmdline ior0 @ [binary ior0]) = mpirun_bin en0"
    by (simp add: ior0_def en0_def)
  have n: "access_args ior0 ''append'' = None" by (simp add: ior0_def)
  show ?thesis
    using C3_unknown_key_fails [OF a, of en0 None None "[]" w0] h n by auto
qed

lemma popens_emit [simp]: "popens (emit e w) = (if is_popen e then popens w @ [e] else popens w)"
  by (simp add: popens_def emit_def)

lemma trace_emit [simp]: "trace (emit e w) = trace w @ [e]"
  by (simp add: emit_def)

lemma popens_log_pipe [simp]: "popens (log_pipe s d w) = popens w"
  by (simp add: log_pipe_def split: option.splits stream.splits)


text \<open>
  C6 (amended): for the IOR launcher, which inherits both methods from the base class,
  preflight and teardown are identity transitions: they return no handle and leave the
  launcher and the outside unchanged.
\<close>

theorem C6_ior_noop:
  assumes "tool l = Ior"
  shows "preflight en l w = (Inr None, l, w) \<and> teardown en acc pat kw l w = (Inr None, l, w)"
  using assms by (simp add: preflight_def teardown_def)

theorem C6_ior_noop_witness:
  "tool ior0 = Ior \<and> preflight en0 ior0 w0 = (Inr None, ior0, w0)
   \<and> teardown en0 ''write'' ''bw'' [] ior0 w0 = (Inr None, ior0, w0)"
proof -
  have t: "tool ior0 = Ior" by (simp add: ior0_def)
  show ?thesis using C6_ior_noop [OF t, of en0 w0 "''write''" "''bw''" "[]"] t by simp
qed

lemmas pre_eval = preflight_def teardown_def srun_cmdline_def

text \<open>
  C6 (as stated in the specification, refuted): the md-workbench launcher runs no
  persistent service, yet its preflight creates a subprocess and returns its handle.
\<close>

theorem C6_mdworkbench_preflight_launches:
  "tool mdw0 = Mdworkbench
   \<and> fst (preflight en0 mdw0 w0) = Inr (Some 0)
   \<and> popens (snd (snd (preflight en0 mdw0 w0))) =
       [Popen [''srun'', ''-N'', ''2'', ''-n'', ''2'', ''--nodelist'', ''n1,n2'',
               ''md-workbench'', ''-1'', ''-R'', ''2''] (Some PIPE) (Some PIPE) 0]"
  by (simp add: pre_eval run_eval popens_def en0_def mdw0_def w0_def)

lemma add_hosts_elbencho:
  "tool l = Elbencho \<Longrightarrow>
   add_hosts m l = Inr (case hosts l of None \<Rightarrow> l | Some hs \<Rightarrow> append_args [''--hosts'', join '','' hs] l)"
  by (simp add: add_hosts_def split: option.splits)






text \<open>
  C10: whenever the teardown of the elbencho launcher returns, the launcher's stdout and
  stderr destinations are the ones it had before the call; and outside dry-run mode the
  cleanup subprocess was created with both streams on a pipe, from a command line
  assembled while both destinations were unset.
\<close>

theorem C10_teardown_restores_streams:
  assumes "tool l = Elbencho" and "fst (teardown en acc pat kw l w) = Inr h"
  shows "stdout (fst (snd (teardown en acc pat kw l w))) = stdout l
       \<and> stderr (fst (snd (teardown en acc pat kw l w))) = stderr l
       \<and> (\<forall>cmd. \<not> test l \<longrightarrow>
             assemble (mpirun_bin en) (isfile w) ''clean'' pat kw (l\<lparr>stdout := None, stderr := None\<rparr>) = Inr cmd
             \<longrightarrow> Popen cmd (Some PIPE) (Some PIPE) (next_pid w) \<in> set (trace (snd (snd (teardown en acc pat kw l w)))))"
proof -
  let ?l1 = "l\<lparr>stdout := None, stderr := None\<rparr>"
  let ?w1 = "emit (Log INFO ''Launching teardown - file cleanup'') w"
  let ?R = "run en ''clean'' pat (Some (Some PIPE)) (Some (Some PIPE)) kw ?l1 ?w1"
  obtain r l2 w2 where R: "?R = (r, l2, w2)" by (cases ?R)
  have s: "same_config (?l1\<lparr>kwargs := dict_update (kwargs ?l1) kw\<rparr>) l2"
    using run_same [of ?l1 kw en "''clean''" pat "Some (Some PIPE)" "Some (Some PIPE)" ?w1] R by simp
  have f: "tool l2 = Elbencho" "test l2 = test l"
    using same_config_fields(1) [OF s] same_config_fields(9) [OF s] assms(1) by simp_all
  obtain proc where r: "r = Inr proc"
    using assms by (cases r) (simp_all add: teardown_def Let_def R)
  have st: "stdout (fst (snd (teardown en acc pat kw l w))) = stdout l
       \<and> stderr (fst (snd (teardown en acc pat kw l w))) = stderr l"
    using assms(1) f
    by (auto simp: teardown_def Let_def R r add_hosts_elbencho popen_def split: option.splits)
  have pp: "Popen cmd (Some PIPE) (Some PIPE) (next_pid w) \<in> set (trace (snd (snd (teardown en acc pat kw l w))))"
    if nt: "\<not> test l"
      and a: "assemble (mpirun_bin en) (isfile w) ''clean'' pat kw ?l1 = Inr cmd" for cmd
  proof -
    obtain u lp where p: "prep_cmdline (mpirun_bin en) (isfile w) ''clean'' pat
        (?l1\<lparr>kwargs := dict_update (kwargs ?l1) kw\<rparr>) = (Inr u, lp)" and c: "cmdline lp = cmd"
      using a by (auto simp: assemble_def split: prod.splits sum.splits)
    have sp: "same_config (?l1\<lparr>kwargs := dict_update (kwargs ?l1) kw\<rparr>) lp"
      using prep_cmdline_same [of "?l1\<lparr>kwargs := dict_update (kwargs ?l1) kw\<rparr>" "mpirun_bin en" "isfile w" "''clean''" pat] p
      by simp
    have tp: "\<not> test lp" using same_config_fields(9) [OF sp] nt by simp
    have iw: "isfile ?w1 = isfile w" by (simp add: isfile_def emit_def fun_eq_iff)
    have "?R = (Inr (Some (next_pid ?w1)), lp\<lparr>cmdline := []\<rparr>,
        snd (popen (cmdline lp) (Some PIPE) (Some PIPE)
          (log_pipe ''stderr'' (Some PIPE) (log_pipe ''stdout'' (Some PIPE)
            (emit (Log INFO (''Executing: '' @ join '' '' (cmdline lp))) ?w1)))))"
      unfolding run_def Let_def iw p using tp
      by (simp add: popen_def log_pipe_def emit_def)
    then have "w2 = snd (popen (cmdline lp) (Some PIPE) (Some PIPE)
          (log_pipe ''stderr'' (Some PIPE) (log_pipe ''stdout'' (Some PIPE)
            (emit (Log INFO (''Executing: '' @ join '' '' (cmdline lp))) ?w1))))"
      using R by simp
    then have "Popen cmd (Some PIPE) (Some PIPE) (next_pid w) \<in> set (trace w2)"
      using c by (simp add: popen_def log_pipe_def emit_def)
    moreover have "set (trace w2) \<subseteq> set (trace (snd (snd (teardown en acc pat kw l w))))"
      using assms(1) f
      by (auto simp: teardown_def Let_def R r add_hosts_elbencho popen_def split: option.splits)
    ultimately show ?thesis by blast
  qed
  show ?thesis using st pp by blast
qed

theorem C10_teardown_restores_streams_witness:
  "tool elb0 = Elbencho
   \<and> fst (teardown en0 ''write'' ''bw'' [] elb0 w0) = Inr (Some 1)
   \<and> stdout (fst (snd (teardown en0 ''write'' ''bw'' [] elb0 w0))) = Some (FileObj ''primary_quiet.2p-2s.123.out'')
   \<and> stderr (fst (snd (teardown en0 ''write'' ''bw'' [] elb0 w0))) = Some (FileObj ''primary_quiet.2p-2s.123.out'')
   \<and> Popen [''elbencho'', ''--hosts'', ''n1,n2'', ''--timelimit'', ''45'', ''--blockvarpct'', ''100'',
            ''--threads'', ''4'', ''--sync'', ''--delfiles'', ''--size'', ''1t'', ''--block'', ''1m'',
            ''/scratch/out''] (Some PIPE) (Some PIPE) 0
       \<in> set (trace (snd (snd (teardown en0 ''write'' ''bw'' [] elb0 w0))))"
proof -
  have t: "tool elb0 = Elbencho" by (simp add: elb0_def)
  have r: "fst (teardown en0 ''write'' ''bw'' [] elb0 w0) = Inr (Some 1)"
    by (simp add: pre_eval run_eval en0_def elb0_def w0_def)
  have a: "assemble (mpirun_bin en0) (isfile w0) ''clean'' ''bw'' [] (elb0\<lparr>stdout := None, stderr := None\<rparr>)
      = Inr [''elbencho'', ''--hosts'', ''n1,n2'', ''--timelimit'', ''45'', ''--blockvarpct'', ''100'',
            ''--threads'', ''4'', ''--sync'', ''--delfiles'', ''--size'', ''1t'', ''--block'', ''1m'',
            ''/scratch/out'']"
    by (simp add: assemble_def run_eval en0_def elb0_def w0_def)
  have n: "\<not> test elb0" "next_pid w0 = 0"
      "stdout elb0 = Some (FileObj ''primary_quiet.2p-2s.123.out'')"
      "stderr elb0 = Some (FileObj ''primary_quiet.2p-2s.123.out'')"
    by (simp_all add: elb0_def w0_def)
  show ?thesis
    using C10_teardown_restores_streams [OF t r] a n t r by auto
qed

section \<open>Properties of the interference drivers\<close>

lemma init_labels_ok:
  assumes "\<forall>d \<in> set ds. hosts (launcher d) \<noteq> None"
  shows "\<exists>ds' w'. init_labels en ds w = (Inr (), ds', w')
           \<and> length ds' = length ds \<and> map launcher ds' = map launcher ds
           \<and> trace w' = trace w \<and> next_pid w' = next_pid w \<and> files w' = files w"
  using assms
proof (induction ds arbitrary: w)
  case Nil
  then show ?case by simp
next
  case (Cons d ds)
  obtain hs where hs: "hosts (launcher d) = Some hs" using Cons.prems by auto
  let ?w1 = "snd (time_time en w)"
  have "\<forall>d \<in> set ds. hosts (launcher d) \<noteq> None" using Cons.prems by simp
  from Cons.IH [OF this, of ?w1]
  obtain ds' w' where r: "init_labels en ds ?w1 = (Inr (), ds', w')"
    "length ds' = length ds" "map launcher ds' = map launcher ds"
    "trace w' = trace ?w1" "next_pid w' = next_pid ?w1" "files w' = files ?w1"
    by blast
  show ?case
    using hs r by (simp add: time_time_def Let_def)
qed

text \<open>
  C9: given more than two workloads (each with a launcher that has a host list), the
  symmetric entry point raises NotImplementedError "more than two workloads provided"
  after the label loop: no launcher is touched, nothing is logged, no file is opened and
  no subprocess is created, so no subset of the workloads is run.
\<close>

theorem C9_three_workloads_refused:
  assumes "length ds > 2" and "\<forall>d \<in> set ds. hosts (launcher d) \<noteq> None"
  shows "\<exists>ds' w'. run_symmetric_interference en ds w
            = (Inl (NotImplementedError ''more than two workloads provided''), ds', w')
         \<and> map launcher ds' = map launcher ds
         \<and> trace w' = trace w \<and> next_pid w' = next_pid w \<and> files w' = files w"
proof -
  from init_labels_ok [OF assms(2), of en w]
  obtain ds' w' where r: "init_labels en ds w = (Inr (), ds', w')"
    "length ds' = length ds" "map launcher ds' = map launcher ds"
    "trace w' = trace w" "next_pid w' = next_pid w" "files w' = files w"
    by blast
  show ?thesis
    using r assms(1) by (simp add: run_symmetric_interference_def)
qed

theorem C9_three_workloads_refused_witness:
  "length [prim0, sec0, sec0] > 2
   \<and> fst (run_symmetric_interference en0 [prim0, sec0, sec0] w0)
       = Inl (NotImplementedError ''more than two workloads provided'')
   \<and> trace (snd (snd (run_symmetric_interference en0 [prim0, sec0, sec0] w0))) = []"
proof -
  have l: "length [prim0, sec0, sec0] > 2" by simp
  have h: "\<forall>d \<in> set [prim0, sec0, sec0]. hosts (launcher d) \<noteq> None"
    by (simp add: prim0_def sec0_def ior0_def)
  have t: "trace w0 = []" by (simp add: w0_def)
  show ?thesis
    using C9_three_workloads_refused [OF l h, of en0 w0] t by auto
qed

text \<open>
  C8 (amended): for every non-empty selector whose first character, lower-cased, is none
  of b, p and s, the asymmetric entry point raises ValueError "isolate must be one of:
  primary secondary both" before it touches the workloads or the outside.
\<close>

theorem C8_bad_selector_refused:
  assumes "isolate \<noteq> []"
    and "lower_char (hd isolate) \<noteq> CHR ''b''"
    and "lower_char (hd isolate) \<noteq> CHR ''p''"
    and "lower_char (hd isolate) \<noteq> CHR ''s''"
  shows "run_interference en primary secondary delay isolate w
     = (Inl (ValueError ''isolate must be one of: primary secondary both''), [primary, secondary], w)"
  using assms
  by (cases isolate) (simp_all add: run_interference_def isolated_runs_def)

theorem C8_bad_selector_refused_witness:
  "''quiet'' \<noteq> [] \<and> lower_char (hd ''quiet'') \<noteq> CHR ''b''
   \<and> lower_char (hd ''quiet'') \<noteq> CHR ''p'' \<and> lower_char (hd ''quiet'') \<noteq> CHR ''s''
   \<and> run_interference en0 prim0 sec0 15 ''quiet'' w0
       = (Inl (ValueError ''isolate must be one of: primary secondary both''), [prim0, sec0], w0)"
proof -
  have a: "''quiet'' \<noteq> []" by simp
  have b: "lower_char (hd ''quiet'') \<noteq> CHR ''b''" "lower_char (hd ''quiet'') \<noteq> CHR ''p''"
    "lower_char (hd ''quiet'') \<noteq> CHR ''s''"
    by (simp_all add: lower_char_def)
  show ?thesis
    using C8_bad_selector_refused [OF a b, of en0 prim0 sec0 15 w0] a b by simp
qed

lemma dr1: "drain (Suc 0) = [0,0,0,0,0]" "drain (Suc (Suc 0)) = [0,0,0,0,0,1,1,1,1,1]"
  by (simp_all add: drain_def numeral_eq_Suc upt_rec)

lemmas weak_congs = worker.case_cong_weak sum.case_cong_weak option.case_cong_weak
  prod.case_cong_weak list.case_cong_weak tool.case_cong_weak stream.case_cong_weak

lemmas ev = worker_step_def stamps_def time_time_def Let_def emit_def run_eval en0_def prim0_def ior0_def w0_def

lemmas drv_eval = run_launchers_def starmap_def pool_results_def dr1 ev pre_eval
  open_append_def open_outputs_def launching_def output_filename_def quiet_run_def noisy_run_def
  run_interference_def isolated_runs_def lower_char_def sec0_def

text \<open>
  C8 (as stated in the specification, refuted): the selector "banana" is none of primary,
  secondary and both, yet the asymmetric entry point accepts it (as both, by its first
  letter) and runs to the end without raising.
\<close>

theorem C8_banana_accepted:
  "fst (run_interference en0 prim0 sec0 15 ''banana'' w0) = Inr ()"
  by (simp add: drv_eval cong: weak_congs)

end
